theory Spec2Isabelle
  imports Complex_Main
begin

section \<open>Python values shared by both modules\<close>

text \<open>
  Text is a Python \<open>str\<close>. It is modelled as \<open>string\<close>, read as the UTF-8 bytes of the
  text: the code only compares texts, tests them for emptiness and concatenates them, and
  on these operations the bytes and the code points agree.

  The exceptions that the code handles or that end one of its calls.
\<close>

datatype exn = AttributeError | IndexError | ValidationError

text \<open>
  An attribute of an object that may not be there. \<open>get_original_markdown\<close> is attached
  to a document by the Markdown backend only (the tests check \<open>hasattr\<close> both ways), so
  looking it up on another document raises \<open>AttributeError\<close>.
\<close>

datatype 'a attr = Absent | Present 'a

fun call_attr :: "'a attr \<Rightarrow> exn + 'a" where
  "call_attr Absent = Inl AttributeError"
| "call_attr (Present v) = Inr v"

text \<open>
  \<^verbatim>\<open>try: x = e  except AttributeError: x = d\<close>: the handler catches that one exception,
  any other one passes through.
\<close>

fun except_AttributeError :: "exn + 'a \<Rightarrow> 'a \<Rightarrow> exn + 'a" where
  "except_AttributeError (Inr v) d = Inr v"
| "except_AttributeError (Inl AttributeError) d = Inr d"
| "except_AttributeError (Inl e) d = Inl e"

section \<open>original\_markdown\_chunker.py\<close>

subsection \<open>Data\<close>

text \<open>
  \<open>SerializationResult\<close> of the serializer library: the text and the spans it came
  from; \<open>SerializationResult(text=t)\<close> leaves the spans at their default, the empty list.
\<close>

record 's SerializationResult =
  sr_text :: string
  sr_spans :: "'s list"

definition SerializationResult_of_text :: "string \<Rightarrow> 's SerializationResult" where
  "SerializationResult_of_text t = \<lparr>sr_text = t, sr_spans = []\<rparr>"

text \<open>
  The nodes of a document are of two kinds in the document library: a \<open>DocItem\<close> (a text,
  a table, a picture, ...) or a \<open>GroupItem\<close>; the root \<open>doc.body\<close> is a \<open>GroupItem\<close>.
\<close>

datatype ('i, 'g) NodeItem = DocItem 'i | GroupItem 'g

fun is_DocItem :: "('i, 'g) NodeItem \<Rightarrow> bool" where
  "is_DocItem (DocItem x) = True"
| "is_DocItem (GroupItem g) = False"

text \<open>
  What \<open>doc.iterate_items()\<close> hands out: the library yields pairs \<open>(item, level)\<close>; the
  code also accepts a bare item.
\<close>

datatype 'n iterated = Tuple 'n int | Bare 'n

text \<open>
  The part of a \<open>DoclingDocument\<close> that this module reads. \<open>export_to_markdown\<close> is the
  result of the library's full recomposed export of the document.
\<close>

record ('i, 'g, 'o) DoclingDocument =
  get_original_markdown :: "string option attr"
  export_to_markdown :: string
  iterate_items :: "('i, 'g) NodeItem iterated list"
  body :: 'g
  origin :: 'o

text \<open>
  \<open>DocMeta\<close> of the chunking library is a validating model: its \<open>doc_items\<close> is declared
  a list of \<open>DocItem\<close> of at least one element, and the constructor raises a validation
  error on anything else.
\<close>

record ('i, 'g, 'o) DocMeta =
  meta_doc_items :: "('i, 'g) NodeItem list"
  meta_origin :: 'o

definition DocMeta_init ::
  "('i, 'g) NodeItem list \<Rightarrow> 'o \<Rightarrow> exn + ('i, 'g, 'o) DocMeta" where
  "DocMeta_init items orig =
     (if items \<noteq> [] \<and> list_all is_DocItem items
      then Inr \<lparr>meta_doc_items = items, meta_origin = orig\<rparr>
      else Inl ValidationError)"

record ('i, 'g, 'o) DocChunk =
  chunk_text :: string
  chunk_meta :: "('i, 'g, 'o) DocMeta"

text \<open>
  The state of an \<open>OriginalMarkdownChunkingDocSerializer\<close>: what the base class keeps
  (the document and the keyword arguments of the constructor) and the cached original text.
\<close>

record ('d, 'k) OriginalMarkdownChunkingDocSerializer =
  ser_doc :: 'd
  ser_kwargs :: 'k
  original_content :: "string option"

text \<open>
  What the adapter inherits from the serializer library, as operations on the object:
  the base class's \<open>serialize_doc\<close>; \<open>get_parts\<close>, which serializes the children of the
  body; the serializers by node type that the base class's \<open>serialize\<close> hands a node other
  than the root to; and the root \<open>doc.body\<close>. \<open>get_parts\<close> and the serializers by type call
  back \<open>serialize\<close> on descendants of their node only, never \<open>serialize_doc\<close>. Each may
  raise (\<open>Inl\<close>).
\<close>

record ('self, 'n, 's, 'kw, 'e) serializer_library =
  lib_serialize_doc :: "'self \<Rightarrow> 's SerializationResult list \<Rightarrow> 'kw \<Rightarrow> 'e + 's SerializationResult"
  lib_get_parts :: "'self \<Rightarrow> 'kw \<Rightarrow> 'e + 's SerializationResult list"
  lib_item_serializers ::
    "'self \<Rightarrow> 'n \<Rightarrow> int \<Rightarrow> bool \<Rightarrow> 'n set \<Rightarrow> 'kw \<Rightarrow> 'e + 's SerializationResult"
  lib_body :: "'self \<Rightarrow> 'n"

subsection \<open>The serializer adapter\<close>

text \<open>\<open>OriginalMarkdownChunkingDocSerializer.__init__\<close>\<close>

definition init ::
  "('i, 'g, 'o) DoclingDocument \<Rightarrow> 'k \<Rightarrow>
   exn + (('i, 'g, 'o) DoclingDocument, 'k) OriginalMarkdownChunkingDocSerializer" where
  "init doc kwargs =
     (case except_AttributeError (call_attr (get_original_markdown doc)) None of
        Inl e \<Rightarrow> Inl e
      | Inr oc \<Rightarrow> Inr \<lparr>ser_doc = doc, ser_kwargs = kwargs, original_content = oc\<rparr>)"

text \<open>\<open>OriginalMarkdownChunkingSerializerProvider.get_serializer\<close>\<close>

definition get_serializer ::
  "('i, 'g, 'o) DoclingDocument \<Rightarrow>
   exn + (('i, 'g, 'o) DoclingDocument, unit) OriginalMarkdownChunkingDocSerializer" where
  "get_serializer doc = init doc ()"

text \<open>
  \<open>serialize_doc\<close>. The base class's \<open>serialize_doc\<close> belongs to the serializer library
  and is the parameter \<open>super_serialize_doc\<close>; it gets the object, the parts and the
  remaining keyword arguments, and may raise (\<open>Inl\<close>).
\<close>

definition serialize_doc ::
  "(('d, 'k) OriginalMarkdownChunkingDocSerializer \<Rightarrow> 's SerializationResult list \<Rightarrow> 'kw
      \<Rightarrow> 'e + 's SerializationResult) \<Rightarrow>
   ('d, 'k) OriginalMarkdownChunkingDocSerializer \<Rightarrow> 's SerializationResult list \<Rightarrow> 'kw
      \<Rightarrow> 'e + 's SerializationResult" where
  "serialize_doc super_serialize_doc self parts kwargs =
     (if original_content self \<noteq> None \<and> length parts > 1
      then Inr (SerializationResult_of_text (the (original_content self)))
      else super_serialize_doc self parts kwargs)"

text \<open>
  The base class's \<open>serialize\<close>, from the serializer library. For the root (no item, or
  the body) it returns the empty result when the body is already visited, and otherwise
  \<open>self.serialize_doc(parts=self.get_parts(**kwargs), **kwargs)\<close>; any other node goes to
  the serializer of its type. The call \<open>self.serialize_doc\<close> is dispatched on the object,
  so the method that runs is a parameter, \<open>self_serialize_doc\<close>.
\<close>

definition DocSerializer_serialize ::
  "('s SerializationResult list \<Rightarrow> 'kw \<Rightarrow> 'e + 's SerializationResult) \<Rightarrow>
   ('kw \<Rightarrow> 'e + 's SerializationResult list) \<Rightarrow>
   ('n \<Rightarrow> int \<Rightarrow> bool \<Rightarrow> 'n set \<Rightarrow> 'kw \<Rightarrow> 'e + 's SerializationResult) \<Rightarrow>
   'n \<Rightarrow> 'n option \<Rightarrow> int \<Rightarrow> bool \<Rightarrow> 'n set option \<Rightarrow> 'kw \<Rightarrow> 'e + 's SerializationResult" where
  "DocSerializer_serialize self_serialize_doc get_parts item_serializers doc_body
       item list_level is_inline_scope visited kwargs =
     (let my_visited = (case visited of Some s \<Rightarrow> s | None \<Rightarrow> {})
      in if item = None \<or> item = Some doc_body
         then (if doc_body \<notin> my_visited
               then (case get_parts kwargs of
                       Inl e \<Rightarrow> Inl e
                     | Inr subparts \<Rightarrow> self_serialize_doc subparts kwargs)
               else Inr \<lparr>sr_text = [], sr_spans = []\<rparr>)
         else item_serializers (the item) list_level is_inline_scope
                (insert (the item) my_visited) kwargs)"

text \<open>
  \<open>serialize\<close> of the adapter: \<open>super().serialize(...)\<close> with the arguments as they came.
  The base class's method runs on the adapter, so its \<open>self.serialize_doc\<close> is the
  adapter's \<open>serialize_doc\<close> above.
\<close>

definition serialize ::
  "(('d, 'k) OriginalMarkdownChunkingDocSerializer, 'n, 's, 'kw, 'e) serializer_library \<Rightarrow>
   ('d, 'k) OriginalMarkdownChunkingDocSerializer \<Rightarrow> 'n option \<Rightarrow> int \<Rightarrow> bool
      \<Rightarrow> 'n set option \<Rightarrow> 'kw \<Rightarrow> 'e + 's SerializationResult" where
  "serialize L self item list_level is_inline_scope visited kwargs =
     DocSerializer_serialize (serialize_doc (lib_serialize_doc L) self) (lib_get_parts L self)
       (lib_item_serializers L self) (lib_body L self)
       item list_level is_inline_scope visited kwargs"

text \<open>
  The base serializer's \<open>serialize\<close> on the same object state, for comparison: the same
  method where \<open>serialize_doc\<close> is not overridden.
\<close>

definition ChunkingDocSerializer_serialize ::
  "(('d, 'k) OriginalMarkdownChunkingDocSerializer, 'n, 's, 'kw, 'e) serializer_library \<Rightarrow>
   ('d, 'k) OriginalMarkdownChunkingDocSerializer \<Rightarrow> 'n option \<Rightarrow> int \<Rightarrow> bool
      \<Rightarrow> 'n set option \<Rightarrow> 'kw \<Rightarrow> 'e + 's SerializationResult" where
  "ChunkingDocSerializer_serialize L self item list_level is_inline_scope visited kwargs =
     DocSerializer_serialize (lib_serialize_doc L self) (lib_get_parts L self)
       (lib_item_serializers L self) (lib_body L self)
       item list_level is_inline_scope visited kwargs"

subsection \<open>The single-chunk producer\<close>

fun unwrap :: "'n iterated \<Rightarrow> 'n" where
  "unwrap (Tuple item level) = item"
| "unwrap (Bare item) = item"

text \<open>
  \<open>SingleChunkMarkdownChunker.chunk\<close>, a generator; the result is the list of the
  chunks it yields, or the exception that ends it. The fallback \<open>[doc.body]\<close> is a list
  of one \<open>GroupItem\<close>.
\<close>

definition chunk :: "('i, 'g, 'o) DoclingDocument \<Rightarrow> exn + ('i, 'g, 'o) DocChunk list" where
  "chunk doc =
     (case except_AttributeError (call_attr (get_original_markdown doc)) None of
        Inl e \<Rightarrow> Inl e
      | Inr oc \<Rightarrow>
          let original_content =
                (case oc of None \<Rightarrow> export_to_markdown doc | Some t \<Rightarrow> t);
              doc_items = map unwrap (iterate_items doc)
          in case DocMeta_init (if doc_items \<noteq> [] then doc_items else [GroupItem (body doc)])
                    (origin doc) of
               Inl e \<Rightarrow> Inl e
             | Inr meta \<Rightarrow> Inr [\<lparr>chunk_text = original_content, chunk_meta = meta\<rparr>])"
section \<open>utils/export.py\<close>

subsection \<open>Data\<close>

text \<open>
  Coordinates are floats that the code only hands to the geometry library, so they are
  carried as numbers and the library's operations are parameters (\<open>geometry\<close> below).
\<close>

type_synonym bbox = "real \<times> real \<times> real \<times> real"

type_synonym rect = "real list"

record Size =
  width :: real
  height :: real

record Prov =
  prov_bbox :: bbox
  prov_page :: int

text \<open>A reference to an object of the document; it has no \<open>prov\<close> and no \<open>text\<close>.\<close>

record Ref =
  ref_name :: string
  ref_obj_type :: string
  ref_ref :: string

text \<open>
  A concrete element (\<open>BaseText\<close>, \<open>BaseCell\<close>, \<open>Table\<close>). \<open>table_html\<close> is
  \<open>Some h\<close> exactly when the element is a \<open>Table\<close>, \<open>h\<close> being its \<open>export_to_html()\<close>.
\<close>

record item =
  obj_type :: string
  prov :: "Prov list option"
  item_text :: "string option"
  table_html :: "string option"

datatype main_text_item = IsRef Ref | IsItem item

record Cell =
  cell_text :: string
  cell_rect :: rect
  from_ocr :: bool
  confidence :: real

record Page =
  pg_page_no :: int
  pg_size :: "Size option"
  pg_cells :: "Cell list"

text \<open>
  The legacy document: \<open>main_text\<close>, \<open>_resolve_ref\<close>, and how the document library
  renders a sequence of entries as Markdown and as document tokens (the latter with
  \<open>add_page_index=False\<close>).
\<close>

record ExportedCCSDocument =
  main_text :: "main_text_item list option"
  resolve_ref :: "Ref \<Rightarrow> item option"
  render_markdown :: "main_text_item list \<Rightarrow> string"
  render_document_tokens :: "main_text_item list \<Rightarrow> string"

record ConversionResult =
  legacy_document :: ExportedCCSDocument
  pages :: "Page list"
  result_get_original_markdown :: "string option"

text \<open>
  The geometry library: for an element, \<open>BoundingBox.from_tuple\<close> with a bottom-left
  origin, \<open>to_top_left_origin\<close>, \<open>normalized\<close>, \<open>as_tuple\<close>; for a cell the same
  after \<open>rect.to_bounding_box()\<close>.
\<close>

record geometry =
  segment_bbox :: "Size \<Rightarrow> bbox \<Rightarrow> bbox"
  cell_bbox :: "Size \<Rightarrow> rect \<Rightarrow> bbox"

text \<open>The dictionaries that the generator builds.\<close>

record segment_data =
  html_seq :: string
  otsl_seq :: string

record segment =
  index_in_doc :: int
  label :: string
  seg_text :: string
  seg_bbox :: bbox
  seg_data :: "segment_data list"

record page_cell =
  pc_text :: string
  pc_bbox :: bbox
  pc_ocr :: bool
  pc_ocr_confidence :: real

text \<open>The tuple that the generator yields for a page, field by field.\<close>

record page_tuple =
  t_content_text :: string
  t_content_md :: string
  t_content_dt :: string
  t_page_cells :: "page_cell list"
  t_page_segments :: "segment list"
  t_page :: Page

text \<open>The local variables of the generator that its nested functions read.\<close>

record vars =
  content_text :: string
  page_no :: int
  start_ix :: int
  end_ix :: int
  doc_items :: "(int \<times> main_text_item) list"

subsection \<open>Helpers of the language\<close>

text \<open>\<open>xs[i]\<close>: a negative index counts from the end, out of range raises.\<close>

definition py_index :: "'a list \<Rightarrow> int \<Rightarrow> exn + 'a" where
  "py_index xs i =
     (if 0 \<le> i \<and> i < int (length xs) then Inr (xs ! nat i)
      else if - int (length xs) \<le> i \<and> i < 0 then Inr (xs ! nat (int (length xs) + i))
      else Inl IndexError)"

text \<open>
  \<open>xs[i:j]\<close>: a negative bound counts from the end, both bounds are clamped to the
  list, and the element at the stop index \<open>j\<close> is not part of the slice.
\<close>

definition py_slice :: "'a list \<Rightarrow> int \<Rightarrow> int \<Rightarrow> 'a list" where
  "py_slice xs i j =
     (let n = int (length xs);
          lo = (if i < 0 then max (i + n) 0 else min i n);
          hi = (if j < 0 then max (j + n) 0 else min j n)
      in take (nat (hi - lo)) (drop (nat lo) xs))"

text \<open>\<open>enumerate(xs)\<close>, counting from \<open>i\<close>.\<close>

fun enumerate_from :: "int \<Rightarrow> 'a list \<Rightarrow> (int \<times> 'a) list" where
  "enumerate_from i [] = []"
| "enumerate_from i (x # xs) = (i, x) # enumerate_from (i + 1) xs"

text \<open>Attribute reads on an entry of \<open>main_text\<close>.\<close>

fun entry_obj_type :: "main_text_item \<Rightarrow> string" where
  "entry_obj_type (IsRef r) = ref_obj_type r"
| "entry_obj_type (IsItem it) = obj_type it"

fun entry_prov :: "main_text_item \<Rightarrow> exn + Prov list option" where
  "entry_prov (IsRef r) = Inl AttributeError"
| "entry_prov (IsItem it) = Inr (prov it)"

fun entry_text :: "main_text_item \<Rightarrow> exn + string option" where
  "entry_text (IsRef r) = Inl AttributeError"
| "entry_text (IsItem it) = Inr (item_text it)"

fun entry_table_html :: "main_text_item \<Rightarrow> string option" where
  "entry_table_html (IsRef r) = None"
| "entry_table_html (IsItem it) = table_html it"

text \<open>\<open>doc._resolve_ref(x) if isinstance(x, Ref) else x\<close>\<close>

fun resolve :: "ExportedCCSDocument \<Rightarrow> main_text_item \<Rightarrow> item option" where
  "resolve doc (IsRef r) = resolve_ref doc r"
| "resolve doc (IsItem it) = Some it"

subsection \<open>The exports of the legacy document\<close>

text \<open>
  \<open>export_to_markdown\<close> and \<open>export_to_document_tokens\<close> of the document library
  render the entries \<open>self.main_text[main_text_start:main_text_stop]\<close>, and nothing
  when there is no \<open>main_text\<close>.
\<close>

definition legacy_export_to_markdown :: "ExportedCCSDocument \<Rightarrow> int \<Rightarrow> int \<Rightarrow> string" where
  "legacy_export_to_markdown doc main_text_start main_text_stop =
     render_markdown doc
       (case main_text doc of
          None \<Rightarrow> []
        | Some mt \<Rightarrow> py_slice mt main_text_start main_text_stop)"

definition export_to_document_tokens :: "ExportedCCSDocument \<Rightarrow> int \<Rightarrow> int \<Rightarrow> string" where
  "export_to_document_tokens doc main_text_start main_text_stop =
     render_document_tokens doc
       (case main_text doc of
          None \<Rightarrow> []
        | Some mt \<Rightarrow> py_slice mt main_text_start main_text_stop)"

subsection \<open>generate\_multimodal\_pages and its nested functions\<close>

definition label_to_doclaynet :: "(string \<times> string) list" where
  "label_to_doclaynet =
     [(''title'', ''title''),
      (''table-of-contents'', ''document_index''),
      (''subtitle-level-1'', ''section_header''),
      (''checkbox-selected'', ''checkbox_selected''),
      (''checkbox-unselected'', ''checkbox_unselected''),
      (''caption'', ''caption''),
      (''page-header'', ''page_header''),
      (''page-footer'', ''page_footer''),
      (''footnote'', ''footnote''),
      (''table'', ''table''),
      (''formula'', ''formula''),
      (''list-item'', ''list_item''),
      (''code'', ''code''),
      (''figure'', ''picture''),
      (''picture'', ''picture''),
      (''reference'', ''text''),
      (''paragraph'', ''text''),
      (''text'', ''text'')]"

text \<open>
  \<open>_process_page_segments\<close>. The conditions of the \<open>continue\<close> are evaluated from left
  to right: the label, then \<open>item.prov\<close> (which a \<open>Ref\<close> does not have), then the page
  size; after them \<open>item.prov[0]\<close> raises on an empty list.
\<close>

fun process_page_segments ::
  "geometry \<Rightarrow> (int \<times> main_text_item) list \<Rightarrow> Page \<Rightarrow> exn + segment list" where
  "process_page_segments G [] page = Inr []"
| "process_page_segments G ((ix, it) # rest) page =
     (case map_of label_to_doclaynet (entry_obj_type it) of
        None \<Rightarrow> process_page_segments G rest page
      | Some lab \<Rightarrow>
          (case entry_prov it of
             Inl e \<Rightarrow> Inl e
           | Inr None \<Rightarrow> process_page_segments G rest page
           | Inr (Some pv) \<Rightarrow>
               (case pg_size page of
                  None \<Rightarrow> process_page_segments G rest page
                | Some sz \<Rightarrow>
                    (case pv of
                       [] \<Rightarrow> Inl IndexError
                     | p # _ \<Rightarrow>
                         (case entry_text it of
                            Inl e \<Rightarrow> Inl e
                          | Inr tx \<Rightarrow>
                              (let new_segment =
                                     \<lparr>index_in_doc = ix,
                                      label = lab,
                                      seg_text = (case tx of Some t \<Rightarrow> t | None \<Rightarrow> []),
                                      seg_bbox = segment_bbox G sz (prov_bbox p),
                                      seg_data =
                                        (case entry_table_html it of
                                           Some h \<Rightarrow> [\<lparr>html_seq = h, otsl_seq = []\<rparr>]
                                         | None \<Rightarrow> [])\<rparr>
                               in case process_page_segments G rest page of
                                    Inl e \<Rightarrow> Inl e
                                  | Inr segments \<Rightarrow> Inr (new_segment # segments)))))))"

text \<open>\<open>_process_page_cells\<close>\<close>

definition process_page_cells :: "geometry \<Rightarrow> Page \<Rightarrow> page_cell list" where
  "process_page_cells G page =
     (case pg_size page of
        None \<Rightarrow> []
      | Some sz \<Rightarrow>
          map (\<lambda>cell. \<lparr>pc_text = cell_text cell,
                        pc_bbox = cell_bbox G sz (cell_rect cell),
                        pc_ocr = from_ocr cell,
                        pc_ocr_confidence = confidence cell\<rparr>)
              (pg_cells page))"

text \<open>
  \<open>_process_page\<close>: it reads the generator's variables as they are when it is called.
\<close>

definition process_page :: "geometry \<Rightarrow> ConversionResult \<Rightarrow> vars \<Rightarrow> exn + page_tuple" where
  "process_page G doc_result v =
     (let doc = legacy_document doc_result;
          page_ix = page_no v - 1
      in case py_index (pages doc_result) page_ix of
           Inl e \<Rightarrow> Inl e
         | Inr page \<Rightarrow>
             (let page_cells = process_page_cells G page
              in case process_page_segments G (doc_items v) page of
                   Inl e \<Rightarrow> Inl e
                 | Inr page_segments \<Rightarrow>
                     (let original_md = result_get_original_markdown doc_result;
                          content_md =
                            (if original_md \<noteq> None \<and> start_ix v = 0 \<and> main_text doc \<noteq> None
                                \<and> end_ix v = int (length (the (main_text doc))) - 1
                             then the original_md
                             else legacy_export_to_markdown doc (start_ix v) (end_ix v));
                          content_dt = export_to_document_tokens doc (start_ix v) (end_ix v)
                      in Inr \<lparr>t_content_text = content_text v,
                              t_content_md = content_md,
                              t_content_dt = content_dt,
                              t_page_cells = page_cells,
                              t_page_segments = page_segments,
                              t_page = page\<rparr>)))"

text \<open>
  The test of both loops over \<open>main_text\<close>:
  \<open>item is not None and item.prov is not None and len(item.prov) > 0\<close>.
\<close>

fun carries_prov :: "item option \<Rightarrow> bool" where
  "carries_prov None = False"
| "carries_prov (Some it) = (case prov it of None \<Rightarrow> False | Some pv \<Rightarrow> length pv > 0)"

text \<open>The first loop: is there an element with page information?\<close>

definition has_items_with_pages :: "ExportedCCSDocument \<Rightarrow> main_text_item list \<Rightarrow> bool" where
  "has_items_with_pages doc mt = list_ex (\<lambda>orig_item. carries_prov (resolve doc orig_item)) mt"

text \<open>
  The loop of the branch without page records, which builds \<open>content_text\<close>:
  \<open>if resolved_item and resolved_item.text: content_text += resolved_item.text + " "\<close>.
\<close>

fun collect_text :: "ExportedCCSDocument \<Rightarrow> main_text_item list \<Rightarrow> string \<Rightarrow> string" where
  "collect_text doc [] acc = acc"
| "collect_text doc (x # rest) acc =
     (case resolve doc x of
        None \<Rightarrow> collect_text doc rest acc
      | Some resolved_item \<Rightarrow>
          (case item_text resolved_item of
             None \<Rightarrow> collect_text doc rest acc
           | Some t \<Rightarrow>
               if t \<noteq> [] then collect_text doc rest (acc @ t @ '' '')
               else collect_text doc rest acc))"

text \<open>
  A generator's run: what it yields, in order, and the exception that ends it, if any.

  The loop over the paginated elements. \<open>emit\<close> stands for the call \<open>_process_page()\<close> at
  a \<open>yield\<close>: a raise there ends the generator, otherwise the value is yielded and the
  loop goes on.
\<close>

fun paged_loop ::
  "(vars \<Rightarrow> exn + 'a) \<Rightarrow> ExportedCCSDocument \<Rightarrow> (int \<times> main_text_item) list \<Rightarrow> vars
     \<Rightarrow> 'a list \<times> exn option" where
  "paged_loop emit doc [] v =
     (if length (doc_items v) > 0
      then (case emit v of Inl e \<Rightarrow> ([], Some e) | Inr y \<Rightarrow> ([y], None))
      else ([], None))"
| "paged_loop emit doc ((ix, orig_item) # rest) v =
     (case resolve doc orig_item of
        None \<Rightarrow> paged_loop emit doc rest v
      | Some it \<Rightarrow>
          (case prov it of
             None \<Rightarrow> paged_loop emit doc rest v
           | Some [] \<Rightarrow> paged_loop emit doc rest v
           | Some (p # _) \<Rightarrow>
               (let item_page = prov_page p;
                    add = (\<lambda>w. w\<lparr>page_no := item_page,
                                  end_ix := ix,
                                  doc_items := doc_items w @ [(ix, IsItem it)],
                                  content_text :=
                                    (case item_text it of
                                       None \<Rightarrow> content_text w
                                     | Some t \<Rightarrow>
                                         if t \<noteq> [] then content_text w @ t @ '' ''
                                         else content_text w)\<rparr>)
                in if page_no v > 0 \<and> item_page > page_no v
                   then (case emit v of
                           Inl e \<Rightarrow> ([], Some e)
                         | Inr y \<Rightarrow>
                             (case paged_loop emit doc rest
                                     (add (v\<lparr>start_ix := ix, doc_items := [],
                                              content_text := []\<rparr>)) of
                                (ys, err) \<Rightarrow> (y # ys, err)))
                   else paged_loop emit doc rest (add v))))"

text \<open>The placeholder page of the branch without page records.\<close>

definition dummy_page :: Page where
  "dummy_page = \<lparr>pg_page_no = 1, pg_size = Some \<lparr>width = 210, height = 297\<rparr>, pg_cells = []\<rparr>"

text \<open>\<open>generate_multimodal_pages\<close>\<close>

definition generate_multimodal_pages ::
  "geometry \<Rightarrow> ConversionResult \<Rightarrow> page_tuple list \<times> exn option" where
  "generate_multimodal_pages G doc_result =
     (let doc = legacy_document doc_result
      in case main_text doc of
           None \<Rightarrow> ([], None)
         | Some mt \<Rightarrow>
             if \<not> has_items_with_pages doc mt
             then
               (let v = \<lparr>content_text = [], page_no = 1, start_ix = 0,
                         end_ix = int (length mt) - 1, doc_items = enumerate_from 0 mt\<rparr>
                in if pages doc_result = []
                   then
                     (let original_md = result_get_original_markdown doc_result
                      in ([\<lparr>t_content_text = collect_text doc mt [],
                            t_content_md =
                              (case original_md of
                                 Some t \<Rightarrow> t
                               | None \<Rightarrow> legacy_export_to_markdown doc (start_ix v) (end_ix v)),
                            t_content_dt = export_to_document_tokens doc (start_ix v) (end_ix v),
                            t_page_cells = [],
                            t_page_segments = [],
                            t_page = dummy_page\<rparr>], None))
                   else (case process_page G doc_result v of
                           Inl e \<Rightarrow> ([], Some e)
                         | Inr y \<Rightarrow> ([y], None)))
             else
               paged_loop (process_page G doc_result) doc (enumerate_from 0 mt)
                 \<lparr>content_text = [], page_no = 0, start_ix = 0, end_ix = 0, doc_items = []\<rparr>)"

text \<open>
  The runs of the paginated loop: the variables at each call of \<open>_process_page()\<close>, in
  order, obtained from the same loop by yielding the variables themselves.
\<close>

definition page_runs :: "ExportedCCSDocument \<Rightarrow> main_text_item list \<Rightarrow> vars list" where
  "page_runs doc mt =
     fst (paged_loop Inr doc (enumerate_from 0 mt)
            \<lparr>content_text = [], page_no = 0, start_ix = 0, end_ix = 0, doc_items = []\<rparr>)"

text \<open>
  Calling \<open>emit\<close> on the runs in order, up to the first raise: what the loop does with
  its runs, as \<open>paged_loop_run_all\<close> below shows.
\<close>

fun run_all :: "('v \<Rightarrow> exn + 'a) \<Rightarrow> 'v list \<Rightarrow> 'a list \<times> exn option" where
  "run_all emit [] = ([], None)"
| "run_all emit (v # vs) =
     (case emit v of
        Inl e \<Rightarrow> ([], Some e)
      | Inr y \<Rightarrow> (case run_all emit vs of (ys, err) \<Rightarrow> (y # ys, err)))"

text \<open>
  Following the spec's words, for comparison with what the generator computes: the
  recomposed export restricted to the index range of a run, that is the rendering of the
  elements from the run's start index to its end index, both included.
\<close>

definition run_elements :: "main_text_item list \<Rightarrow> int \<Rightarrow> int \<Rightarrow> main_text_item list" where
  "run_elements mt first_ix last_ix = py_slice mt first_ix (last_ix + 1)"

definition recomposed_export_of_run :: "ExportedCCSDocument \<Rightarrow> int \<Rightarrow> int \<Rightarrow> string" where
  "recomposed_export_of_run doc first_ix last_ix =
     render_markdown doc
       (case main_text doc of None \<Rightarrow> [] | Some mt \<Rightarrow> run_elements mt first_ix last_ix)"

section \<open>Concrete inputs\<close>

text \<open>
  Modelled from the spec: the base serializer is not part of this repository. Its
  ``standard recomposition (concatenate parts under the standard rules of the underlying
  serializer)'' is taken as joining the non-empty texts of the parts by a blank line. It is
  an instance of the parameter \<open>super_serialize_doc\<close>, used to run the adapter on
  concrete inputs only.
\<close>

fun join_with :: "string \<Rightarrow> string list \<Rightarrow> string" where
  "join_with sep [] = []"
| "join_with sep [x] = x"
| "join_with sep (x # y # ys) = x @ sep @ join_with sep (y # ys)"

definition standard_serialize_doc ::
  "'x \<Rightarrow> 's SerializationResult list \<Rightarrow> 'kw \<Rightarrow> exn + 's SerializationResult" where
  "standard_serialize_doc self parts kwargs =
     Inr \<lparr>sr_text = join_with [CHR 0x0A, CHR 0x0A] (filter (\<lambda>t. t \<noteq> []) (map sr_text parts)),
          sr_spans = concat (map sr_spans parts)\<rparr>"

text \<open>
  A Markdown document of one heading and one line with a full-width colon (U+FF1A, the
  bytes EF BC 9A), whose recomposed export differs from the source text in spacing; its
  serializer; and the parts of its two elements.
\<close>

definition source_text :: string where
  "source_text = ''# Plan'' @ [CHR 0x0A] @ ''**Days**'' @ [CHR 0xEF, CHR 0xBC, CHR 0x9A] @ ''7''
                   @ [CHR 0x0A]"

definition md_doc :: "(string, string, string) DoclingDocument" where
  "md_doc = \<lparr>get_original_markdown = Present (Some source_text),
             export_to_markdown = ''# Plan'' @ [CHR 0x0A, CHR 0x0A] @ ''**Days** : 7'',
             iterate_items = [Tuple (DocItem ''#/texts/0'') 1, Tuple (DocItem ''#/texts/1'') 2],
             body = ''#/body'',
             origin = ''plan.md''\<rparr>"

definition md_serializer ::
  "((string, string, string) DoclingDocument, unit) OriginalMarkdownChunkingDocSerializer" where
  "md_serializer = \<lparr>ser_doc = md_doc, ser_kwargs = (), original_content = Some source_text\<rparr>"

definition heading_part :: "(string, string) NodeItem SerializationResult" where
  "heading_part = \<lparr>sr_text = ''# Plan'', sr_spans = [DocItem ''#/texts/0'']\<rparr>"

definition days_part :: "(string, string) NodeItem SerializationResult" where
  "days_part = \<lparr>sr_text = ''**Days** : 7'', sr_spans = [DocItem ''#/texts/1'']\<rparr>"

text \<open>
  A Markdown document that is one heading, without a final newline in its recomposition:
  its only element is \<open>#/texts/0\<close>, so the full list of its parts is \<open>[heading_part]\<close>.
\<close>

definition heading_source :: string where
  "heading_source = ''# Plan'' @ [CHR 0x0A]"

definition heading_doc :: "(string, string, string) DoclingDocument" where
  "heading_doc = \<lparr>get_original_markdown = Present (Some heading_source),
                  export_to_markdown = ''# Plan'',
                  iterate_items = [Tuple (DocItem ''#/texts/0'') 1],
                  body = ''#/body'',
                  origin = ''heading.md''\<rparr>"

definition heading_serializer ::
  "((string, string, string) DoclingDocument, unit) OriginalMarkdownChunkingDocSerializer" where
  "heading_serializer =
     \<lparr>ser_doc = heading_doc, ser_kwargs = (), original_content = Some heading_source\<rparr>"

text \<open>
  Documents without elements: a Markdown file of one empty line, with its stored source
  text; a document whose stored text is null; and a document of a backend that does not
  attach the capability.
\<close>

definition blank_source :: string where
  "blank_source = [CHR 0x0A]"

definition blank_doc :: "(string, string, string) DoclingDocument" where
  "blank_doc = \<lparr>get_original_markdown = Present (Some blank_source),
                  export_to_markdown = [],
                  iterate_items = [],
                  body = ''#/body'',
                  origin = ''blank.md''\<rparr>"

definition empty_doc :: "(string, string, string) DoclingDocument" where
  "empty_doc = blank_doc\<lparr>get_original_markdown := Present None, origin := ''empty.html''\<rparr>"

definition plain_doc :: "(string, string, string) DoclingDocument" where
  "plain_doc = blank_doc\<lparr>get_original_markdown := Absent, origin := ''empty.docx''\<rparr>"

text \<open>
  An instance of the serializer library for \<open>md_doc\<close>: the blank-line join, the parts of
  the two elements, each element serialized to its part.
\<close>

definition standard_library ::
  "(((string, string, string) DoclingDocument, unit) OriginalMarkdownChunkingDocSerializer,
    string, (string, string) NodeItem, unit, exn) serializer_library" where
  "standard_library =
     \<lparr>lib_serialize_doc = standard_serialize_doc,
      lib_get_parts = (\<lambda>self kwargs. Inr [heading_part, days_part]),
      lib_item_serializers =
        (\<lambda>self node list_level is_inline_scope visited kwargs.
           Inr (if node = ''#/texts/0'' then heading_part else days_part)),
      lib_body = (\<lambda>self. ''#/body'')\<rparr>"

text \<open>
  Inputs of the page export. The geometry is an instance of the library's operations for
  concrete runs. The elements are a heading and a paragraph; \<open>heading_item\<close> has an
  empty provenance list, as a converted Markdown element has, \<open>days_item\<close> has none.
  \<open>plain_markdown\<close> and \<open>plain_tokens\<close> stand for the library's renderers: the texts of
  the entries, joined by a blank line, and between document tags.
\<close>

definition plain_geometry :: geometry where
  "plain_geometry = \<lparr>segment_bbox = (\<lambda>sz b. b), cell_bbox = (\<lambda>sz r. (0, 0, 0, 0))\<rparr>"

definition heading_item :: item where
  "heading_item = \<lparr>obj_type = ''subtitle-level-1'', prov = Some [], item_text = Some ''Plan'',
                    table_html = None\<rparr>"

definition days_item :: item where
  "days_item = \<lparr>obj_type = ''paragraph'', prov = None, item_text = Some ''Days: 7'',
                 table_html = None\<rparr>"

definition a4_page :: Page where
  "a4_page = \<lparr>pg_page_no = 1, pg_size = Some \<lparr>width = 210, height = 297\<rparr>, pg_cells = []\<rparr>"

definition second_page :: Page where
  "second_page = a4_page\<lparr>pg_page_no := 2\<rparr>"

fun entry_plain_text :: "main_text_item \<Rightarrow> string" where
  "entry_plain_text (IsRef r) = []"
| "entry_plain_text (IsItem it) = (case item_text it of Some t \<Rightarrow> t | None \<Rightarrow> [])"

definition plain_markdown :: "main_text_item list \<Rightarrow> string" where
  "plain_markdown entries =
     join_with [CHR 0x0A, CHR 0x0A] (filter (\<lambda>t. t \<noteq> []) (map entry_plain_text entries))"

definition plain_tokens :: "main_text_item list \<Rightarrow> string" where
  "plain_tokens entries = ''<document>'' @ concat (map entry_plain_text entries) @ ''</document>''"

definition flat_document :: ExportedCCSDocument where
  "flat_document = \<lparr>main_text = Some [IsItem (heading_item\<lparr>prov := None\<rparr>), IsItem days_item],
                     resolve_ref = (\<lambda>r. None),
                     render_markdown = plain_markdown,
                     render_document_tokens = plain_tokens\<rparr>"

definition flat_result :: ConversionResult where
  "flat_result = \<lparr>legacy_document = flat_document, pages = [],
                   result_get_original_markdown = Some source_text\<rparr>"

definition on_page :: "int \<Rightarrow> item \<Rightarrow> item" where
  "on_page n it = it\<lparr>prov := Some [\<lparr>prov_bbox = (0, 0, 10, 10), prov_page = n\<rparr>]\<rparr>"

definition paged_document :: ExportedCCSDocument where
  "paged_document = flat_document\<lparr>main_text :=
      Some [IsItem (on_page 1 heading_item), IsItem (on_page 2 days_item)]\<rparr>"

text \<open>
  A conversion result of the elements as a Markdown conversion leaves them (the heading
  with the empty provenance list), with a page record.
\<close>

definition empty_prov_result :: ConversionResult where
  "empty_prov_result =
     \<lparr>legacy_document = flat_document\<lparr>main_text := Some [IsItem heading_item, IsItem days_item]\<rparr>,
      pages = [a4_page], result_get_original_markdown = Some source_text\<rparr>"

text \<open>
  A conversion result whose \<open>main_text\<close> refers to a table, which \<open>_resolve_ref\<close> finds
  and which carries no page information, with a page record.
\<close>

definition table_ref :: Ref where
  "table_ref = \<lparr>ref_name = ''Table'', ref_obj_type = ''table'', ref_ref = ''#/tables/0''\<rparr>"

definition table_item :: item where
  "table_item = \<lparr>obj_type = ''table'', prov = None, item_text = None,
                  table_html = Some ''<table></table>''\<rparr>"

definition ref_result :: ConversionResult where
  "ref_result =
     \<lparr>legacy_document = flat_document\<lparr>main_text := Some [IsRef table_ref],
                                        resolve_ref := (\<lambda>r. Some table_item)\<rparr>,
      pages = [a4_page], result_get_original_markdown = None\<rparr>"

definition single_page_result :: ConversionResult where
  "single_page_result =
     \<lparr>legacy_document = flat_document\<lparr>main_text :=
        Some [IsItem (on_page 1 heading_item), IsItem (on_page 1 days_item)]\<rparr>,
      pages = [a4_page], result_get_original_markdown = Some source_text\<rparr>"

definition paged_result :: ConversionResult where
  "paged_result = \<lparr>legacy_document = paged_document, pages = [a4_page, second_page],
                    result_get_original_markdown = Some source_text\<rparr>"
section \<open>The serializer adapter: properties\<close>

lemma init_cached:
  "init doc kwargs =
     Inr \<lparr>ser_doc = doc, ser_kwargs = kwargs,
          original_content = (case get_original_markdown doc of Absent \<Rightarrow> None | Present v \<Rightarrow> v)\<rparr>"
  by (cases "get_original_markdown doc") (simp_all add: init_def)

text \<open>
  C1, as stated, fails: \<open>heading_doc\<close> is a whole document of one element, its serializer
  is constructed with the stored source text, and on the full list of its parts, which is
  the one part of that element, \<open>serialize_doc\<close> returns the recomposition of the part,
  whose text is not the source text.
\<close>

theorem serialize_doc_single_part_counterexample:
  "init heading_doc () = Inr heading_serializer \<and>
   original_content heading_serializer = Some heading_source \<and>
   concat (map sr_spans [heading_part]) = map unwrap (iterate_items heading_doc) \<and>
   serialize_doc standard_serialize_doc heading_serializer [heading_part] () = Inr heading_part \<and>
   sr_text heading_part \<noteq> heading_source"
  by (simp add: init_cached serialize_doc_def standard_serialize_doc_def heading_serializer_def
        heading_doc_def heading_part_def heading_source_def)

text \<open>
  C1, amended: for every document with a stored original text, the serializer constructed
  from it caches that text; \<open>serialize_doc\<close> on a list of more than one part returns a
  result whose text is that original text, and on a list of no part or of one part it
  returns what the base serializer's \<open>serialize_doc\<close> returns on these parts.
\<close>

theorem serialize_doc_original_text:
  assumes "init doc init_kwargs = Inr self"
      and "get_original_markdown doc = Present (Some t)"
  shows "original_content self = Some t \<and>
         (1 < length parts \<longrightarrow>
            (\<exists>r. serialize_doc super_serialize_doc self parts kwargs = Inr r \<and> sr_text r = t)) \<and>
         (length parts \<le> 1 \<longrightarrow>
            serialize_doc super_serialize_doc self parts kwargs
              = super_serialize_doc self parts kwargs)"
proof -
  have c: "original_content self = Some t"
    using assms by (auto simp add: init_cached)
  show ?thesis
    using c by (auto simp add: serialize_doc_def SerializationResult_of_text_def)
qed

theorem serialize_doc_original_text_witness:
  "original_content md_serializer = Some source_text \<and>
   (\<exists>r. serialize_doc standard_serialize_doc md_serializer [heading_part, days_part] () = Inr r
        \<and> sr_text r = source_text) \<and>
   serialize_doc standard_serialize_doc md_serializer [days_part] ()
     = standard_serialize_doc md_serializer [days_part] ()"
proof -
  have i: "init md_doc () = Inr md_serializer"
    by (simp add: init_cached md_serializer_def md_doc_def)
  have g: "get_original_markdown md_doc = Present (Some source_text)"
    by (simp add: md_doc_def)
  show ?thesis
    using serialize_doc_original_text [OF i g, where parts = "[heading_part, days_part]"
            and super_serialize_doc = standard_serialize_doc and kwargs = "()"]
          serialize_doc_original_text [OF i g, where parts = "[days_part]"
            and super_serialize_doc = standard_serialize_doc and kwargs = "()"]
    by simp
qed

text \<open>
  C2: \<open>serialize_doc\<close> substitutes the cached original text exactly when that text is
  not null and there is more than one part: the result is then the serialization result
  with this text and no spans. With a null cached text, with no part or with one part, its
  result is the base serializer's result on the same arguments.
\<close>

theorem serialize_doc_decision:
  "(original_content self = Some t \<and> 1 < length parts \<longrightarrow>
      serialize_doc super_serialize_doc self parts kwargs = Inr \<lparr>sr_text = t, sr_spans = []\<rparr>) \<and>
   (original_content self = None \<or> length parts = 0 \<or> length parts = 1 \<longrightarrow>
      serialize_doc super_serialize_doc self parts kwargs = super_serialize_doc self parts kwargs)"
  by (auto simp add: serialize_doc_def SerializationResult_of_text_def)

theorem serialize_doc_decision_witness:
  "serialize_doc standard_serialize_doc md_serializer [heading_part, days_part] ()
     = Inr \<lparr>sr_text = source_text, sr_spans = []\<rparr> \<and>
   serialize_doc standard_serialize_doc md_serializer [days_part] ()
     = standard_serialize_doc md_serializer [days_part] () \<and>
   serialize_doc standard_serialize_doc (md_serializer\<lparr>original_content := None\<rparr>)
       [heading_part, days_part] ()
     = standard_serialize_doc (md_serializer\<lparr>original_content := None\<rparr>)
         [heading_part, days_part] ()"
proof -
  have c: "original_content md_serializer = Some source_text"
    by (simp add: md_serializer_def)
  show ?thesis
    using serialize_doc_decision [of md_serializer source_text "[heading_part, days_part]"
            standard_serialize_doc "()"]
          serialize_doc_decision [of md_serializer source_text "[days_part]"
            standard_serialize_doc "()"]
          serialize_doc_decision [of "md_serializer\<lparr>original_content := None\<rparr>" source_text
            "[heading_part, days_part]" standard_serialize_doc "()"]
          c
    by simp
qed

text \<open>
  C8, as stated, fails at the root: \<open>serialize\<close> without an item on the serializer of
  \<open>md_doc\<close> returns the stored source text, where the base serializer returns the
  recomposition of the two parts.
\<close>

theorem serialize_root_counterexample:
  "serialize standard_library md_serializer None 0 False None ()
     = Inr \<lparr>sr_text = source_text, sr_spans = []\<rparr> \<and>
   ChunkingDocSerializer_serialize standard_library md_serializer None 0 False None ()
     = Inr \<lparr>sr_text = ''# Plan'' @ [CHR 0x0A, CHR 0x0A] @ ''**Days** : 7'',
            sr_spans = [DocItem ''#/texts/0'', DocItem ''#/texts/1'']\<rparr> \<and>
   serialize standard_library md_serializer None 0 False None ()
     \<noteq> ChunkingDocSerializer_serialize standard_library md_serializer None 0 False None ()"
  by (simp add: serialize_def ChunkingDocSerializer_serialize_def DocSerializer_serialize_def
        serialize_doc_def SerializationResult_of_text_def standard_library_def
        standard_serialize_doc_def md_serializer_def heading_part_def days_part_def
        source_text_def)

text \<open>
  C8, amended: for every node other than the root and every combination of arguments,
  \<open>serialize\<close> returns what the base serializer's \<open>serialize\<close> returns on the same
  arguments. For the root (no item, or the body) it returns the adapter's
  \<open>serialize_doc\<close> on the parts of the document: the serialization result with the cached
  original text when that text is not null, the body is not yet visited and there is more
  than one part, and the base serializer's result in every other case.
\<close>

theorem serialize_delegates:
  "(item \<noteq> None \<and> item \<noteq> Some (lib_body L self) \<longrightarrow>
      serialize L self item list_level is_inline_scope visited kwargs
        = ChunkingDocSerializer_serialize L self item list_level is_inline_scope visited kwargs) \<and>
   ((item = None \<or> item = Some (lib_body L self)) \<and>
    lib_body L self \<notin> (case visited of Some s \<Rightarrow> s | None \<Rightarrow> {}) \<and>
    lib_get_parts L self kwargs = Inr parts \<and>
    original_content self = Some t \<and> 1 < length parts \<longrightarrow>
      serialize L self item list_level is_inline_scope visited kwargs
        = Inr \<lparr>sr_text = t, sr_spans = []\<rparr>) \<and>
   ((item = None \<or> item = Some (lib_body L self)) \<and>
    (lib_body L self \<in> (case visited of Some s \<Rightarrow> s | None \<Rightarrow> {}) \<or>
     (\<exists>e. lib_get_parts L self kwargs = Inl e) \<or>
     (\<exists>ps. lib_get_parts L self kwargs = Inr ps \<and> length ps \<le> 1) \<or>
     original_content self = None) \<longrightarrow>
      serialize L self item list_level is_inline_scope visited kwargs
        = ChunkingDocSerializer_serialize L self item list_level is_inline_scope visited kwargs)"
  by (auto simp add: serialize_def ChunkingDocSerializer_serialize_def
        DocSerializer_serialize_def serialize_doc_def SerializationResult_of_text_def Let_def
        split: sum.splits)

theorem serialize_delegates_witness:
  "serialize standard_library md_serializer (Some ''#/texts/1'') 0 False None ()
     = ChunkingDocSerializer_serialize standard_library md_serializer (Some ''#/texts/1'')
         0 False None () \<and>
   serialize standard_library md_serializer (Some ''#/body'') 0 False None ()
     = Inr \<lparr>sr_text = source_text, sr_spans = []\<rparr> \<and>
   serialize standard_library md_serializer None 0 False (Some {''#/body''}) ()
     = ChunkingDocSerializer_serialize standard_library md_serializer None
         0 False (Some {''#/body''}) ()"
proof -
  have b: "lib_body standard_library md_serializer = ''#/body''"
    by (simp add: standard_library_def)
  have p: "lib_get_parts standard_library md_serializer () = Inr [heading_part, days_part]"
    by (simp add: standard_library_def)
  have c: "original_content md_serializer = Some source_text"
    by (simp add: md_serializer_def)
  show ?thesis
    using serialize_delegates [of "Some ''#/texts/1''" standard_library md_serializer 0 False
            None "()" "[heading_part, days_part]" source_text]
          serialize_delegates [of "Some ''#/body''" standard_library md_serializer 0 False
            None "()" "[heading_part, days_part]" source_text]
          serialize_delegates [of None standard_library md_serializer 0 False
            "Some {''#/body''}" "()" "[heading_part, days_part]" source_text]
          b p c
    by simp
qed

section \<open>The single-chunk producer: properties\<close>

lemma chunk_with_items:
  assumes "iterate_items doc \<noteq> []"
      and "list_all is_DocItem (map unwrap (iterate_items doc))"
  shows "chunk doc =
     Inr [\<lparr>chunk_text =
             (case get_original_markdown doc of
                Present (Some t) \<Rightarrow> t
              | _ \<Rightarrow> export_to_markdown doc),
           chunk_meta =
             \<lparr>meta_doc_items = map unwrap (iterate_items doc), meta_origin = origin doc\<rparr>\<rparr>]"
proof (cases "get_original_markdown doc")
  case Absent
  with assms show ?thesis by (simp add: chunk_def DocMeta_init_def)
next
  case (Present v)
  with assms show ?thesis by (cases v) (simp_all add: chunk_def DocMeta_init_def)
qed

lemma chunk_without_items:
  assumes "iterate_items doc = []"
  shows "chunk doc = Inl ValidationError"
proof (cases "get_original_markdown doc")
  case Absent
  with assms show ?thesis by (simp add: chunk_def DocMeta_init_def)
next
  case (Present v)
  with assms show ?thesis by (simp add: chunk_def DocMeta_init_def)
qed

text \<open>
  C3 does not hold of the code on a document without elements: \<open>blank_doc\<close> has a
  stored original text, and the chunk operation yields no chunk with that text; it ends
  with the validation error of \<open>DocMeta\<close> on the fallback list \<open>[doc.body]\<close>.
\<close>

theorem chunk_raises_on_stored_text_without_elements:
  "get_original_markdown blank_doc = Present (Some blank_source) \<and>
   iterate_items blank_doc = [] \<and>
   chunk blank_doc = Inl ValidationError"
  by (simp add: chunk_def DocMeta_init_def blank_doc_def)

text \<open>
  C4 does not hold of the code on a document whose iteration is empty: the source-item
  list falls back to the root alone, a \<open>GroupItem\<close>, which \<open>DocMeta\<close> rejects, so the
  producer yields no chunk at all.
\<close>

theorem chunk_root_fallback_raises:
  "iterate_items empty_doc = [] \<and>
   DocMeta_init [GroupItem (body empty_doc)] (origin empty_doc)
     = (Inl ValidationError :: exn + (string, string, string) DocMeta) \<and>
   chunk empty_doc = Inl ValidationError"
  by (simp add: chunk_def DocMeta_init_def empty_doc_def blank_doc_def)

text \<open>
  C7 holds of the construction and does not hold of the chunk operation on a document
  without elements: on \<open>plain_doc\<close> the retrieval raises the attribute error, the
  serializer is constructed with a null cached text, and the chunk operation, past the
  handler, ends with the validation error of \<open>DocMeta\<close>.
\<close>

theorem chunk_raises_without_capability_and_elements:
  "call_attr (get_original_markdown plain_doc) = Inl AttributeError \<and>
   init plain_doc () = Inr \<lparr>ser_doc = plain_doc, ser_kwargs = (), original_content = None\<rparr> \<and>
   iterate_items plain_doc = [] \<and>
   chunk plain_doc = Inl ValidationError"
  by (simp add: init_cached chunk_def DocMeta_init_def plain_doc_def blank_doc_def)
section \<open>The page export: properties\<close>

lemmas ex_defs = plain_geometry_def heading_item_def days_item_def a4_page_def second_page_def
  plain_markdown_def plain_tokens_def flat_document_def flat_result_def on_page_def
  paged_document_def paged_result_def single_page_result_def empty_prov_result_def
  table_ref_def table_item_def ref_result_def

lemmas gen_defs = generate_multimodal_pages_def has_items_with_pages_def process_page_def
  py_index_def process_page_cells_def label_to_doclaynet_def Let_def page_runs_def
  legacy_export_to_markdown_def export_to_document_tokens_def py_slice_def

subsection \<open>The paginated loop and its runs\<close>

lemma paged_loop_run_all:
  "paged_loop emit doc xs v = run_all emit (fst (paged_loop Inr doc xs v))"
proof (induction xs arbitrary: v)
  case Nil
  show ?case by (simp split: sum.splits)
next
  case (Cons x xs)
  note IH = Cons.IH
  obtain ix orig_item where x: "x = (ix, orig_item)" by (cases x)
  show ?case
  proof (cases "resolve doc orig_item")
    case None
    then show ?thesis by (simp add: x IH)
  next
    case (Some it)
    show ?thesis
    proof (cases "prov it")
      case None
      with Some show ?thesis by (simp add: x IH)
    next
      case pv: (Some pv)
      show ?thesis
      proof (cases pv)
        case Nil
        with Some pv show ?thesis by (simp add: x IH)
      next
        case first: (Cons p ps)
        with Some pv show ?thesis
          by (simp add: x Let_def IH split: sum.splits prod.splits)
      qed
    qed
  qed
qed

lemma run_all_nth:
  "run_all emit rs = (ys, err) \<Longrightarrow>
     length ys \<le> length rs \<and> (\<forall>i<length ys. emit (rs ! i) = Inr (ys ! i)) \<and>
     (err = None \<longrightarrow> length ys = length rs)"
proof (induction rs arbitrary: ys err)
  case Nil
  then show ?case by simp
next
  case (Cons r rs)
  show ?case
  proof (cases "emit r")
    case (Inl e)
    with Cons.prems show ?thesis by auto
  next
    case (Inr y)
    obtain ys' err' where rest: "run_all emit rs = (ys', err')" by (cases "run_all emit rs")
    from Cons.prems Inr rest have ys: "ys = y # ys'" and err: "err = err'" by simp_all
    from Cons.IH [OF rest] show ?thesis
      unfolding ys err using Inr by (auto simp add: nth_Cons')
  qed
qed

lemma process_page_fields:
  assumes "process_page G dr v = Inr y"
  shows "t_content_text y = content_text v"
    and "t_content_md y =
           (if result_get_original_markdown dr \<noteq> None \<and> start_ix v = 0
               \<and> main_text (legacy_document dr) \<noteq> None
               \<and> end_ix v = int (length (the (main_text (legacy_document dr)))) - 1
            then the (result_get_original_markdown dr)
            else legacy_export_to_markdown (legacy_document dr) (start_ix v) (end_ix v))"
  using assms by (auto simp add: process_page_def Let_def split: sum.splits)

lemma paged_outputs:
  assumes "main_text (legacy_document dr) = Some mt"
      and "has_items_with_pages (legacy_document dr) mt"
      and "i < length (fst (generate_multimodal_pages G dr))"
  shows "i < length (page_runs (legacy_document dr) mt)"
    and "process_page G dr (page_runs (legacy_document dr) mt ! i)
           = Inr (fst (generate_multimodal_pages G dr) ! i)"
proof -
  let ?v0 = "\<lparr>content_text = [], page_no = 0, start_ix = 0, end_ix = 0, doc_items = []\<rparr>"
  have g: "generate_multimodal_pages G dr
             = run_all (process_page G dr) (page_runs (legacy_document dr) mt)"
    using assms(1,2)
    by (simp add: generate_multimodal_pages_def page_runs_def Let_def
          paged_loop_run_all [of "process_page G dr"])
  obtain ys err where r: "run_all (process_page G dr) (page_runs (legacy_document dr) mt) = (ys, err)"
    by (cases "run_all (process_page G dr) (page_runs (legacy_document dr) mt)")
  from run_all_nth [OF r] assms(3) g r
  show "i < length (page_runs (legacy_document dr) mt)"
    and "process_page G dr (page_runs (legacy_document dr) mt ! i)
           = Inr (fst (generate_multimodal_pages G dr) ! i)"
    by auto
qed

lemma paged_markdown_field:
  assumes "main_text (legacy_document dr) = Some mt"
      and "has_items_with_pages (legacy_document dr) mt"
      and "result_get_original_markdown dr = Some t"
      and "i < length (fst (generate_multimodal_pages G dr))"
      and "run = page_runs (legacy_document dr) mt ! i"
      and "y = fst (generate_multimodal_pages G dr) ! i"
  shows "process_page G dr run = Inr y"
    and "t_content_md y =
           (if start_ix run = 0 \<and> end_ix run = int (length mt) - 1 then t
            else render_markdown (legacy_document dr) (py_slice mt (start_ix run) (end_ix run)))"
proof -
  show p: "process_page G dr run = Inr y"
    using paged_outputs(2) [OF assms(1,2,4)] assms(5,6) by simp
  show "t_content_md y =
      (if start_ix run = 0 \<and> end_ix run = int (length mt) - 1 then t
       else render_markdown (legacy_document dr) (py_slice mt (start_ix run) (end_ix run)))"
    using process_page_fields(2) [OF p] assms(1,3) by (simp add: legacy_export_to_markdown_def)
qed

text \<open>
  The slice that the generator asks the export for is the run without its last element:
  the end index of the run, which is the index of its last element, is handed over as
  the stop index of the slice.
\<close>

lemma export_slice_is_run_without_last:
  assumes "0 \<le> first_ix" and "first_ix \<le> last_ix" and "last_ix < int (length mt)"
  shows "py_slice mt first_ix last_ix = butlast (run_elements mt first_ix last_ix)"
    and "run_elements mt first_ix last_ix \<noteq> []"
proof -
  let ?xs = "drop (nat first_ix) mt"
  have n: "nat (last_ix + 1 - first_ix) \<le> length ?xs"
    using assms by simp
  have r: "run_elements mt first_ix last_ix = take (nat (last_ix + 1 - first_ix)) ?xs"
    using assms by (simp add: run_elements_def py_slice_def Let_def min_def)
  have s: "py_slice mt first_ix last_ix = take (nat (last_ix - first_ix)) ?xs"
    using assms by (simp add: py_slice_def Let_def min_def)
  have "butlast (take (nat (last_ix + 1 - first_ix)) ?xs)
          = take (nat (last_ix + 1 - first_ix) - 1) ?xs"
    using n by (rule butlast_take)
  also have "nat (last_ix + 1 - first_ix) - 1 = nat (last_ix - first_ix)"
    using assms by simp
  finally show "py_slice mt first_ix last_ix = butlast (run_elements mt first_ix last_ix)"
    using r s by simp
  show "run_elements mt first_ix last_ix \<noteq> []"
    using r n assms by auto
qed

text \<open>
  C5 does not hold of the code on a document of two pages: the run of the second page is
  the range from index 1 to index 1, whose element is the paragraph, and the recomposed
  export restricted to that range is the paragraph's text; the Markdown field of the
  second tuple is the rendering of no element.
\<close>

theorem partial_run_export_drops_last_element:
  "start_ix (page_runs paged_document
      [IsItem (on_page 1 heading_item), IsItem (on_page 2 days_item)] ! 1) = 1 \<and>
   end_ix (page_runs paged_document
      [IsItem (on_page 1 heading_item), IsItem (on_page 2 days_item)] ! 1) = 1 \<and>
   run_elements [IsItem (on_page 1 heading_item), IsItem (on_page 2 days_item)] 1 1
     = [IsItem (on_page 2 days_item)] \<and>
   recomposed_export_of_run paged_document 1 1 = ''Days: 7'' \<and>
   length (fst (generate_multimodal_pages plain_geometry paged_result)) = 2 \<and>
   t_content_md (fst (generate_multimodal_pages plain_geometry paged_result) ! 1)
     = render_markdown paged_document [] \<and>
   render_markdown paged_document [] = []"
  by (simp add: gen_defs ex_defs run_elements_def recomposed_export_of_run_def)

subsection \<open>The document without page information\<close>

lemma single_page_variables:
  "process_page G dr \<lparr>content_text = [], page_no = 1, start_ix = 0,
                       end_ix = int (length mt) - 1, doc_items = enumerate_from 0 mt\<rparr>
     = (case pages dr of
          [] \<Rightarrow> Inl IndexError
        | page # others \<Rightarrow>
            (case process_page_segments G (enumerate_from 0 mt) page of
               Inl e \<Rightarrow> Inl e
             | Inr segs \<Rightarrow>
                 Inr \<lparr>t_content_text = [],
                      t_content_md =
                        (if result_get_original_markdown dr \<noteq> None
                            \<and> main_text (legacy_document dr) \<noteq> None
                            \<and> int (length mt) - 1
                                = int (length (the (main_text (legacy_document dr)))) - 1
                         then the (result_get_original_markdown dr)
                         else legacy_export_to_markdown (legacy_document dr) 0 (int (length mt) - 1)),
                      t_content_dt =
                        export_to_document_tokens (legacy_document dr) 0 (int (length mt) - 1),
                      t_page_cells = process_page_cells G page,
                      t_page_segments = segs,
                      t_page = page\<rparr>))"
  by (cases "pages dr") (simp_all add: process_page_def py_index_def Let_def split: sum.splits)

lemma single_page_generate:
  assumes "main_text (legacy_document dr) = Some mt"
      and "\<not> has_items_with_pages (legacy_document dr) mt"
      and "pages dr = page # others"
  shows "generate_multimodal_pages G dr =
           (case process_page_segments G (enumerate_from 0 mt) page of
              Inl e \<Rightarrow> ([], Some e)
            | Inr segs \<Rightarrow>
                ([\<lparr>t_content_text = [],
                   t_content_md =
                     (case result_get_original_markdown dr of
                        Some t \<Rightarrow> t
                      | None \<Rightarrow>
                          legacy_export_to_markdown (legacy_document dr) 0 (int (length mt) - 1)),
                   t_content_dt =
                     export_to_document_tokens (legacy_document dr) 0 (int (length mt) - 1),
                   t_page_cells = process_page_cells G page,
                   t_page_segments = segs,
                   t_page = page\<rparr>], None))"
  using assms
  by (simp add: generate_multimodal_pages_def Let_def single_page_variables
        split: sum.splits option.splits)

lemma synthesized_page_markdown:
  assumes "main_text (legacy_document dr) = Some mt"
      and "\<not> has_items_with_pages (legacy_document dr) mt"
      and "result_get_original_markdown dr = Some t"
      and "pages dr = []"
  shows "\<exists>y. generate_multimodal_pages G dr = ([y], None) \<and> t_content_md y = t \<and>
             t_content_text y = collect_text (legacy_document dr) mt []"
  using assms by (simp add: generate_multimodal_pages_def Let_def)

text \<open>
  C6 does not hold of the code when page records exist: in \<open>empty_prov_result\<close> no
  element carries page information, the conversion result has a stored original text and
  a page record, and the generator yields no tuple: the segment pass reads
  \<open>item.prov[0]\<close> of the heading, whose provenance list is empty, and raises.
\<close>

theorem empty_prov_with_page_record_raises:
  "main_text (legacy_document empty_prov_result) = Some [IsItem heading_item, IsItem days_item] \<and>
   \<not> has_items_with_pages (legacy_document empty_prov_result)
       [IsItem heading_item, IsItem days_item] \<and>
   result_get_original_markdown empty_prov_result = Some source_text \<and>
   pages empty_prov_result = [a4_page] \<and>
   generate_multimodal_pages plain_geometry empty_prov_result = ([], Some IndexError)"
  by (simp add: gen_defs ex_defs)

text \<open>
  C10 does not hold of the code on \<open>ref_result\<close>: no element carries page information,
  there is a page record, and the generator yields no tuple: the segment pass runs on the
  entries of \<open>main_text\<close> as they are, and reading \<open>prov\<close> of the reference raises.
\<close>

theorem unresolved_ref_with_page_record_raises:
  "main_text (legacy_document ref_result) = Some [IsRef table_ref] \<and>
   \<not> has_items_with_pages (legacy_document ref_result) [IsRef table_ref] \<and>
   pages ref_result = [a4_page] \<and>
   generate_multimodal_pages plain_geometry ref_result = ([], Some AttributeError)"
  by (simp add: gen_defs ex_defs)

text \<open>
  C9: when \<open>main_text\<close> is absent, the generator yields nothing and returns without
  raising.
\<close>

theorem absent_main_text_yields_nothing:
  assumes "main_text (legacy_document dr) = None"
  shows "generate_multimodal_pages G dr = ([], None)"
  using assms by (simp add: generate_multimodal_pages_def Let_def)

theorem absent_main_text_yields_nothing_witness:
  "generate_multimodal_pages plain_geometry
     (flat_result\<lparr>legacy_document := flat_document\<lparr>main_text := None\<rparr>\<rparr>) = ([], None)"
proof -
  have a: "main_text (legacy_document
             (flat_result\<lparr>legacy_document := flat_document\<lparr>main_text := None\<rparr>\<rparr>)) = None"
    by simp
  show ?thesis
    using absent_main_text_yields_nothing [OF a] .
qed

end
